theory Spec2Isabelle
  imports Main
begin

section \<open>Python values and string helpers\<close>

text \<open>
  A string is a list of characters, each a code point below 256. \<open>str_int\<close> is Python's
  \<open>str\<close> on an \<open>int\<close>: decimal digits, with a leading minus sign for a negative number.
\<close>

definition digit_char :: "nat \<Rightarrow> char" where
  "digit_char d = ''0123456789'' ! d"

fun str_nat :: "nat \<Rightarrow> string" where
  "str_nat n = (if n < 10 then [digit_char n] else str_nat (n div 10) @ [digit_char (n mod 10)])"

declare str_nat.simps [simp del]

definition str_int :: "int \<Rightarrow> string" where
  "str_int i = (if i < 0 then CHR ''-'' # str_nat (nat (- i)) else str_nat (nat i))"

text \<open>
  \<open>startswith s p\<close> is \<open>s.startswith(p)\<close>; \<open>py_replace s old new\<close> is
  \<open>s.replace(old, new)\<close>: every non-overlapping occurrence of \<open>old\<close>, found from the left,
  becomes \<open>new\<close>; an empty \<open>old\<close> matches before every character and at the end.
\<close>

definition startswith :: "string \<Rightarrow> string \<Rightarrow> bool" where
  "startswith s p = (take (length p) s = p)"

function replace_from :: "string \<Rightarrow> string \<Rightarrow> string \<Rightarrow> string" where
  "replace_from [] old new = []"
| "replace_from (c # cs) old new =
     (if old \<noteq> [] \<and> startswith (c # cs) old
      then new @ replace_from (drop (length old) (c # cs)) old new
      else c # replace_from cs old new)"
  by pat_completeness auto
termination
  by (relation "measure (\<lambda>(s, old, new). length s)") auto

definition py_replace :: "string \<Rightarrow> string \<Rightarrow> string \<Rightarrow> string" where
  "py_replace s old new =
     (if old = [] then new @ concat (map (\<lambda>c. c # new) s) else replace_from s old new)"

text \<open>
  \<open>split_on P s\<close> cuts \<open>s\<close> at every character satisfying \<open>P\<close>, keeping empty pieces:
  \<open>s.split('?')\<close> is \<open>split_on (\<lambda>c. c = CHR ''?'') s\<close> and \<open>re.split(r'[?&]', s)\<close> is
  \<open>split_on (\<lambda>c. c = CHR ''?'' \<or> c = CHR ''&'') s\<close>. The result is never empty.
\<close>

fun split_on :: "(char \<Rightarrow> bool) \<Rightarrow> string \<Rightarrow> string list" where
  "split_on P [] = [[]]"
| "split_on P (c # cs) =
     (if P c then [] # split_on P cs
      else (case split_on P cs of [] \<Rightarrow> [[c]] | w # ws \<Rightarrow> (c # w) # ws))"

definition lower_char :: "char \<Rightarrow> char" where
  "lower_char c =
     (let n = (of_char c :: nat) in if 65 \<le> n \<and> n \<le> 90 then char_of (n + 32) else c)"

definition lower :: "string \<Rightarrow> string" where
  "lower s = map lower_char s"

text \<open>The exceptions of the modelled code, and the two ways a call ends.\<close>

datatype py_error =
    IndexError | KeyError | AttributeError | ValueError | UnboundLocalError
  | DocumentNotFoundError | CreationError | InvalidDocument

datatype 'a outcome = Returned 'a | Raised py_error

text \<open>
  The value an \<open>item\<close> holds inside \<open>add\<close>: the string typed by the caller, the numeric id
  a channel reference resolved to, or \<open>None\<close>.
\<close>

datatype pyitem = PStr string | PInt int | PNone

section \<open>Blacklist value normalisation (autobahn\_mgr.add)\<close>

text \<open>
  Line 103 of \<open>autobahn_mgr.py\<close>: for the top-level-domain blacklist (\<open>0x7\<close>) the handler
  stores \<open>item.replace('.', '')\<close>.
\<close>

definition tld_item :: "string \<Rightarrow> string" where
  "tld_item item = py_replace item ''.'' ''''"


section \<open>The document store (database/arango.py)\<close>

text \<open>
  The document database is an external service. What the code relies on is modelled
  directly: a collection with user keys (\<open>Chats\<close>, \<open>BanList\<close>) is a map from the document
  key, kept as text, to the document, and saving a document whose key is taken raises
  \<open>CreationError\<close>; a collection with \<open>autoincrement\<close> keys (the blacklists) is the list of
  its documents in creation order together with the last key handed out. The field
  validators of \<open>_fields\<close> belong to the library and are taken to accept the values the
  handlers pass (the handlers filter \<open>None\<close> themselves).
\<close>

subsection \<open>Chats\<close>

text \<open>
  A tag value is what the chat configuration stores under a tag name: a string, an
  integer or a range; \<open>Present\<close> is the value the resolver answers for a bare switch.
\<close>

datatype tag_value = Present | Text string | Number int | Range int int

record chat_doc =
  c_key :: string
  c_id :: int
  tags :: "string list"
  named_tags :: "string \<rightharpoonup> tag_value"

type_synonym chats = "string \<rightharpoonup> chat_doc"

definition save_chat :: "chats \<Rightarrow> chat_doc \<Rightarrow> py_error + chats" where
  "save_chat cs doc =
     (if cs (c_key doc) \<noteq> None then Inl CreationError else Inr (cs(c_key doc \<mapsto> doc)))"

definition add_chat :: "chats \<Rightarrow> int \<Rightarrow> chat_doc option \<times> chats" where
  "add_chat cs cid =
     (let data = \<lparr>c_key = str_int cid, c_id = cid, tags = [], named_tags = Map.empty\<rparr>
      in case save_chat cs data of
           Inr cs' \<Rightarrow> (Some data, cs')
         | Inl _ \<Rightarrow> (None, cs))"

definition get_chat :: "chats \<Rightarrow> int \<Rightarrow> chat_doc option \<times> chats" where
  "get_chat cs cid =
     (case cs (str_int cid) of
        Some doc \<Rightarrow> (Some doc, cs)
      | None \<Rightarrow> add_chat cs cid)"

text \<open>\<open>update_groups.add_groups\<close>: every message outside a private chat looks its chat up.\<close>

definition add_groups :: "chats \<Rightarrow> bool \<Rightarrow> int \<Rightarrow> chats" where
  "add_groups cs is_private cid = (if is_private then cs else snd (get_chat cs cid))"

subsection \<open>Blacklists\<close>

record blacklist_doc =
  doc_key :: nat
  doc_string :: pyitem

record collection =
  docs :: "blacklist_doc list"
  last_key :: nat

text \<open>
  \<open>fetchByExample\<close> gives the documents whose \<open>string\<close> field equals the item; the
  handlers only test whether there is any. \<open>add_item\<close> creates and saves a document under
  the next generated key; with generated keys a save cannot meet a taken key, so the
  \<open>CreationError\<close> branch of the source is never entered and a document is returned.
\<close>

definition fetchByExample :: "collection \<Rightarrow> pyitem \<Rightarrow> blacklist_doc list" where
  "fetchByExample c item = filter (\<lambda>d. doc_string d = item) (docs c)"

definition add_item :: "collection \<Rightarrow> pyitem \<Rightarrow> blacklist_doc option \<times> collection" where
  "add_item c item =
     (let doc = \<lparr>doc_key = Suc (last_key c), doc_string = item\<rparr>
      in (Some doc, \<lparr>docs = docs c @ [doc], last_key = Suc (last_key c)\<rparr>))"

text \<open>
  \<open>get_all\<close> builds a dictionary from string to key: of two documents with the same string
  the later one gives the key.
\<close>

definition get_all :: "collection \<Rightarrow> (pyitem \<rightharpoonup> nat)" where
  "get_all c = map_of (rev (map (\<lambda>d. (doc_string d, doc_key d)) (docs c)))"

text \<open>The eight blacklist classes and their \<open>hex_type\<close> attribute.\<close>

datatype blacklist_class =
    AutobahnBioBlacklist | AutobahnStringBlacklist | AutobahnFilenameBlacklist
  | AutobahnChannelBlacklist | AutobahnDomainBlacklist | AutobahnFileBlacklist
  | AutobahnMHashBlacklist | AutobahnTLDBlacklist

fun hex_type :: "blacklist_class \<Rightarrow> string" where
  "hex_type AutobahnBioBlacklist = ''0x0''"
| "hex_type AutobahnStringBlacklist = ''0x1''"
| "hex_type AutobahnFilenameBlacklist = ''0x2''"
| "hex_type AutobahnChannelBlacklist = ''0x3''"
| "hex_type AutobahnDomainBlacklist = ''0x4''"
| "hex_type AutobahnFileBlacklist = ''0x5''"
| "hex_type AutobahnMHashBlacklist = ''0x6''"
| "hex_type AutobahnTLDBlacklist = ''0x7''"

subsection \<open>Ban list\<close>

record ban_doc =
  ban_key :: string
  ban_id :: int
  reason :: string

type_synonym banlist = "string \<rightharpoonup> ban_doc"








subsection \<open>ArangoDB\<close>

text \<open>
  \<open>ArangoDB.__init__\<close> opens seven blacklist collections and builds \<open>ab_collection_map\<close>
  from type code to collection. The map's values are the collection objects; here they
  are the handles under which the database record holds each collection's contents.
\<close>

record arango_db =
  db_chats :: chats
  blacklists :: "blacklist_class \<Rightarrow> collection"
  db_banlist :: banlist

definition ab_collection_map :: "string \<rightharpoonup> blacklist_class" where
  "ab_collection_map = map_of
     [(''0x0'', AutobahnBioBlacklist),
      (''0x1'', AutobahnStringBlacklist),
      (''0x3'', AutobahnChannelBlacklist),
      (''0x4'', AutobahnDomainBlacklist),
      (''0x5'', AutobahnFileBlacklist),
      (''0x6'', AutobahnMHashBlacklist),
      (''0x7'', AutobahnTLDBlacklist)]"

section \<open>Blacklist management (plugins/autobahn/autobahn\_mgr.py)\<close>

definition AUTOBAHN_TYPES :: "string \<rightharpoonup> string" where
  "AUTOBAHN_TYPES = map_of
     [(''bio'', ''0x0''),
      (''string'', ''0x1''),
      (''filename'', ''0x2''),
      (''channel'', ''0x3''),
      (''domain'', ''0x4''),
      (''file'', ''0x5''),
      (''mhash'', ''0x6''),
      (''tld'', ''0x7'')]"

text \<open>
  What \<open>add\<close> and \<open>del_\<close> ask of the chat platform and of modules outside this component.
  \<open>resolve_invite_link\<close> gives the chat id component of \<open>helpers.resolve_invite_link\<close>;
  \<open>get_entity\<close> either raises one of \<open>constants.GET_ENTITY_ERRORS\<close> or returns an entity
  (its id) or nothing; \<open>reply_file\<close> and \<open>reply_photo\<close> are the hash of the file or photo
  of the message replied to, when it has one.
\<close>

datatype entity_result = GetEntityError | NoEntity | Entity int

record platform =
  resolve_invite_link :: "string \<Rightarrow> int option"
  get_entity :: "string \<Rightarrow> entity_result"
  resolve_url :: "string \<Rightarrow> string"
  TELEGRAM_DOMAINS :: "string list"
  is_reply :: bool
  reply_file :: "string option"
  reply_photo :: "string option"

text \<open>
  Lines 79 to 88 of \<open>add\<close>: the name handed to \<open>get_entity\<close> when the item is no invite
  link. In a \<open>tg://resolve\<close> link each parameter that starts with \<open>domain\<close> is unpacked by
  \<open>_, _item = param.split('=')\<close>, which raises \<open>ValueError\<close> unless there are exactly two
  pieces; otherwise the query part is cut off and every \<open>@\<close> removed.
\<close>

fun domain_param :: "string list \<Rightarrow> string \<Rightarrow> py_error + string" where
  "domain_param [] name = Inr name"
| "domain_param (param # params) name =
     (if startswith param ''domain''
      then (case split_on (\<lambda>c. c = CHR ''='') param of
              [u, v] \<Rightarrow> domain_param params v
            | _ \<Rightarrow> Inl ValueError)
      else domain_param params name)"

definition entity_reference :: "string \<Rightarrow> py_error + string" where
  "entity_reference item =
     (if startswith item ''tg://resolve''
      then domain_param (tl (split_on (\<lambda>c. c = CHR ''?'' \<or> c = CHR ''&'') item)) item
      else (case split_on (\<lambda>c. c = CHR ''?'') item of
              [] \<Rightarrow> Inr (py_replace item ''@'' [])
            | w # ws \<Rightarrow> Inr (py_replace w ''@'' [])))"

text \<open>
  Lines 74 to 103: the type-specific normalisation of one item. \<open>Use v\<close> goes on to the
  store with value \<open>v\<close>, \<open>SkipItem v\<close> appends \<open>v\<close> to the skipped items and continues,
  \<open>Fail e\<close> is an exception leaving the handler.
\<close>

datatype normalised = Use pyitem | SkipItem pyitem | Fail py_error

definition normalise_item :: "platform \<Rightarrow> string \<Rightarrow> string \<Rightarrow> normalised" where
  "normalise_item p hex item =
     (if hex = ''0x3'' then
        (case resolve_invite_link p item of
           Some chat_id \<Rightarrow> Use (PInt chat_id)
         | None \<Rightarrow>
            (case entity_reference item of
               Inl e \<Rightarrow> Fail e
             | Inr name \<Rightarrow>
                (case get_entity p name of
                   GetEntityError \<Rightarrow> SkipItem (PStr name)
                 | Entity eid \<Rightarrow> Use (PInt eid)
                 | NoEntity \<Rightarrow> Use PNone)))
      else if hex = ''0x4'' then
        (let item' = lower (resolve_url p item)
         in if item' \<in> set (TELEGRAM_DOMAINS p) then SkipItem (PStr item') else Use (PStr item'))
      else if hex = ''0x7'' then Use (PStr (tld_item item))
      else Use (PStr item))"

record add_state =
  st_db :: arango_db
  added_items :: "pyitem list"
  existing_items :: "pyitem list"
  skipped_items :: "pyitem list"

definition put_collection :: "arango_db \<Rightarrow> blacklist_class \<Rightarrow> collection \<Rightarrow> arango_db" where
  "put_collection db c coll = db\<lparr>blacklists := (blacklists db)(c := coll)\<rparr>"

text \<open>
  Lines 109 to 115 (and their copies for a file or photo hash): look the value up, add
  it when nothing matches, and record under which heading it is reported; \<open>shown\<close> is
  the text reported for it.
\<close>

definition store_item :: "blacklist_class \<Rightarrow> pyitem \<Rightarrow> pyitem \<Rightarrow> add_state \<Rightarrow> add_state" where
  "store_item c item shown st =
     (let coll = blacklists (st_db st) c;
          existing_one = fetchByExample coll item
      in if existing_one = []
         then st\<lparr>st_db := put_collection (st_db st) c (snd (add_item coll item)),
                 added_items := added_items st @ [shown]\<rparr>
         else st\<lparr>existing_items := existing_items st @ [shown]\<rparr>)"

text \<open>The loop over the items; an exception ends it with the state reached so far.\<close>

fun add_loop :: "platform \<Rightarrow> string option \<Rightarrow> blacklist_class option \<Rightarrow> string list
    \<Rightarrow> add_state \<Rightarrow> py_error option \<times> add_state" where
  "add_loop p hex collection [] st = (None, st)"
| "add_loop p hex collection (item # items) st =
     (case (hex, collection) of
        (Some h, Some c) \<Rightarrow>
          (case normalise_item p h item of
             Fail e \<Rightarrow> (Some e, st)
           | SkipItem v \<Rightarrow>
               add_loop p hex collection items (st\<lparr>skipped_items := skipped_items st @ [v]\<rparr>)
           | Use PNone \<Rightarrow>
               add_loop p hex collection items (st\<lparr>skipped_items := skipped_items st @ [PNone]\<rparr>)
           | Use v \<Rightarrow> add_loop p hex collection items (store_item c v v st))
      | _ \<Rightarrow> add_loop p hex collection items st)"

text \<open>
  The returned document: a section per non-empty list, an empty string otherwise.
\<close>

datatype md_section =
    Blank
  | ItemSection string string "pyitem list"
  | TextSection string string

definition render :: "string \<Rightarrow> add_state \<Rightarrow> string \<Rightarrow> md_section list" where
  "render item_type st warn_message =
     [if added_items st \<noteq> [] then ItemSection ''Added Items:'' item_type (added_items st)
      else Blank,
      if existing_items st \<noteq> [] then ItemSection ''Existing Items:'' item_type (existing_items st)
      else Blank,
      if skipped_items st \<noteq> [] then ItemSection ''Skipped Items:'' item_type (skipped_items st)
      else Blank,
      if warn_message \<noteq> [] then TextSection ''Warning:'' warn_message else Blank]"

definition photo_warning :: "string \<Rightarrow> string" where
  "photo_warning photo_hash =
     (if count_list photo_hash CHR ''0'' > 8
      then ''The image seems to contain a lot of the same color. This might lead to false positives.''
      else [])"

text \<open>
  \<open>add\<close>: \<open>args[0]\<close> is the type name and raises \<open>IndexError\<close> on an empty argument list.
  The two blocks after the loop apply to different type codes, so at most one of them
  runs. The progress messages sent while a file is downloaded are not part of the result.
\<close>

definition add :: "platform \<Rightarrow> arango_db \<Rightarrow> string list
    \<Rightarrow> md_section list outcome \<times> arango_db" where
  "add p db args =
     (case args of
        [] \<Rightarrow> (Raised IndexError, db)
      | item_type # items \<Rightarrow>
         (let hex = AUTOBAHN_TYPES item_type;
              collection = (case hex of None \<Rightarrow> None | Some h \<Rightarrow> ab_collection_map h);
              st0 = \<lparr>st_db = db, added_items = [], existing_items = [], skipped_items = []\<rparr>
          in case add_loop p hex collection items st0 of
               (Some e, st) \<Rightarrow> (Raised e, st_db st)
             | (None, st) \<Rightarrow>
                 if items = [] \<and> hex = Some ''0x5'' then
                   (if is_reply p then
                      (case reply_file p of
                         Some file_hash \<Rightarrow>
                           (case collection of
                              None \<Rightarrow> (Raised AttributeError, st_db st)
                            | Some c \<Rightarrow>
                               (let st' = store_item c (PStr file_hash)
                                            (PStr (take 15 file_hash @ ''[...]'')) st
                                in (Returned (render item_type st' []), st_db st')))
                       | None \<Rightarrow>
                           (Returned [TextSection ''Error'' ''Need to reply to a file''], st_db st))
                    else (Returned [TextSection ''Error'' ''Need to reply to a file''], st_db st))
                 else if items = [] \<and> hex = Some ''0x6'' then
                   (if is_reply p then
                      (case reply_photo p of
                         Some photo_hash \<Rightarrow>
                           (case collection of
                              None \<Rightarrow> (Raised AttributeError, st_db st)
                            | Some c \<Rightarrow>
                               (let st' = store_item c (PStr photo_hash) (PStr photo_hash) st;
                                    warn_message =
                                      (if fetchByExample (blacklists (st_db st) c) (PStr photo_hash) = []
                                       then photo_warning photo_hash else [])
                                in (Returned (render item_type st' warn_message), st_db st')))
                       | None \<Rightarrow>
                           (Returned [TextSection ''Error'' ''Need to reply to a photo''], st_db st))
                    else (Returned [TextSection ''Error'' ''Need to reply to a photo''], st_db st))
                 else (Returned (render item_type st []), st_db st)))"

text \<open>
  \<open>del_\<close> (here \<open>del_subcommand\<close>): the first document holding the value is deleted. For a channel the item is
  replaced by the chat id of the invite link, which may be \<open>None\<close>.
\<close>

fun delete_first :: "pyitem \<Rightarrow> blacklist_doc list \<Rightarrow> blacklist_doc list" where
  "delete_first item [] = []"
| "delete_first item (d # ds) = (if doc_string d = item then ds else d # delete_first item ds)"

fun del_loop :: "platform \<Rightarrow> string \<Rightarrow> string list \<Rightarrow> arango_db \<Rightarrow> pyitem list
    \<Rightarrow> arango_db \<times> pyitem list" where
  "del_loop p item_type [] db removed_items = (db, removed_items)"
| "del_loop p item_type (item # items) db removed_items =
     (case AUTOBAHN_TYPES item_type of
        None \<Rightarrow> del_loop p item_type items db removed_items
      | Some h \<Rightarrow>
         (case ab_collection_map h of
            None \<Rightarrow> del_loop p item_type items db removed_items
          | Some c \<Rightarrow>
             (let v = (if h = ''0x3''
                       then (case resolve_invite_link p item of
                               Some chat_id \<Rightarrow> PInt chat_id | None \<Rightarrow> PNone)
                       else PStr item);
                  coll = blacklists db c
              in if fetchByExample coll v \<noteq> []
                 then del_loop p item_type items
                        (put_collection db c (coll\<lparr>docs := delete_first v (docs coll)\<rparr>))
                        (removed_items @ [v])
                 else del_loop p item_type items db removed_items)))"

definition del_subcommand :: "platform \<Rightarrow> arango_db \<Rightarrow> string list
    \<Rightarrow> md_section list outcome \<times> arango_db" where
  "del_subcommand p db args =
     (case args of
        [] \<Rightarrow> (Raised IndexError, db)
      | item_type # items \<Rightarrow>
         (case del_loop p item_type items db [] of
            (db', removed_items) \<Rightarrow>
              (Returned [ItemSection ''Deleted Items:'' item_type removed_items], db')))"

text \<open>
  \<open>query\<close>: the keyword arguments \<open>type\<close> and \<open>code\<close>; a code is an integer, a range
  (\<open>CodeRange lo hi\<close> is Python's \<open>range(lo, hi)\<close>), a list, or something else. The
  collection is taken by subscript, \<open>db.ab_collection_map[hex_type]\<close>, which raises
  \<open>KeyError\<close> for a key the map does not hold. The result is a document or \<open>None\<close>.
\<close>

datatype code_arg = CodeInt int | CodeRange int int | CodeList "int list" | CodeOther

record kwargs =
  kw_type :: "string option"
  kw_code :: "code_arg option"

datatype query_doc =
    KeyValueItems "string option" "string option" "(nat \<times> pyitem) list"
  | Pre "string option" "string option" "pyitem list"
  | CodeItem "string option" "string option" int pyitem

definition code_keys :: "code_arg \<Rightarrow> int \<Rightarrow> bool" where
  "code_keys code k =
     (case code of
        CodeRange lo hi \<Rightarrow> lo \<le> k \<and> k < hi
      | CodeList ks \<Rightarrow> k \<in> set ks
      | _ \<Rightarrow> False)"

definition query :: "arango_db \<Rightarrow> kwargs \<Rightarrow> query_doc option outcome" where
  "query db kw =
     (let item_type = kw_type kw; code = kw_code kw
      in case (case item_type of
                 None \<Rightarrow> Returned (None, None)
               | Some t \<Rightarrow>
                  (let hex = AUTOBAHN_TYPES t
                   in case (case hex of None \<Rightarrow> None | Some h \<Rightarrow> ab_collection_map h) of
                        None \<Rightarrow> Raised KeyError
                      | Some c \<Rightarrow> Returned (hex, Some c))) of
           Raised e \<Rightarrow> Raised e
         | Returned (hex, collection) \<Rightarrow>
            (case code of
               None \<Rightarrow>
                 (case collection of
                    None \<Rightarrow> Raised AttributeError
                  | Some c \<Rightarrow>
                     (let all_strings = docs (blacklists db c)
                      in if \<not> length all_strings > 100
                         then Returned (Some (KeyValueItems item_type hex
                                (map (\<lambda>d. (doc_key d, doc_string d)) all_strings)))
                         else Returned (Some (Pre item_type hex (map doc_string all_strings)))))
             | Some cd \<Rightarrow>
                 if hex \<noteq> None then
                   (case collection of
                      None \<Rightarrow> Raised AttributeError
                    | Some c \<Rightarrow>
                       (case cd of
                          CodeInt i \<Rightarrow>
                            (case find (\<lambda>d. int (doc_key d) = i) (docs (blacklists db c)) of
                               None \<Rightarrow> Raised DocumentNotFoundError
                             | Some d \<Rightarrow> Returned (Some (CodeItem item_type hex i (doc_string d))))
                        | CodeOther \<Rightarrow> Returned None
                        | _ \<Rightarrow>
                            Returned (Some (KeyValueItems item_type hex
                              (map (\<lambda>d. (doc_key d, doc_string d))
                                 (filter (\<lambda>d. code_keys cd (int (doc_key d)))
                                    (docs (blacklists db c))))))))
                 else Returned None))"

section \<open>Tags\<close>

text \<open>
  Modelled from the spec: the tag resolver \<open>Tags.get\<close> (\<open>utils/tags.py\<close> is not under
  \<open>src/\<close>). Section 4.4: look the name up in the chat's \<open>named_tags\<close> and return its value;
  otherwise, if the name is in the chat's \<open>tags\<close>, return the truthy value \<open>Present\<close>;
  otherwise return the default. The result \<open>None\<close> is Python's \<open>None\<close>.
\<close>

definition tags_get :: "chat_doc \<Rightarrow> string \<Rightarrow> tag_value option \<Rightarrow> tag_value option" where
  "tags_get doc tag_name dflt =
     (case named_tags doc tag_name of
        Some v \<Rightarrow> Some v
      | None \<Rightarrow> if tag_name \<in> set (tags doc) then Some Present else dflt)"

text \<open>
  Python's truth value of a tag; \<open>tag.isdigit()\<close>; and \<open>int(tag)\<close> for a tag that passed
  \<open>isdigit\<close>. Below code point 256 the digits of \<open>isdigit\<close> are the ten decimal digits and
  the superscripts two, three and one (178, 179, 185); \<open>int\<close> reads decimal digits only
  and raises \<open>ValueError\<close> on a superscript.
\<close>

fun truthy :: "tag_value option \<Rightarrow> bool" where
  "truthy None = False"
| "truthy (Some Present) = True"
| "truthy (Some (Text s)) = (s \<noteq> [])"
| "truthy (Some (Number n)) = (n \<noteq> 0)"
| "truthy (Some (Range lo hi)) = (lo < hi)"

definition decimal_digit :: "char \<Rightarrow> bool" where
  "decimal_digit c = (c \<in> set ''0123456789'')"

definition superscript_digit :: "char \<Rightarrow> bool" where
  "superscript_digit c = ((of_char c :: nat) \<in> set [178, 179, 185])"

definition isdigit :: "string \<Rightarrow> bool" where
  "isdigit s = (s \<noteq> [] \<and> list_all (\<lambda>c. decimal_digit c \<or> superscript_digit c) s)"

definition int_of_digits :: "string \<Rightarrow> int" where
  "int_of_digits s = foldl (\<lambda>a c. 10 * a + int (of_char c - 48)) 0 s"

definition int_of_isdigit :: "string \<Rightarrow> py_error + int" where
  "int_of_isdigit s =
     (if list_all decimal_digit s then Inr (int_of_digits s) else Inl ValueError)"

section \<open>Enforcement handlers\<close>

text \<open>
  A handler's effects on the chat platform, in the order performed. A handler returns
  or raises; either way the effects performed up to that point stand.
\<close>

datatype action =
    Sleep int
  | SleepQuarter
  | Gban int string
  | Ban int int
  | Reply tag_value int string
  | DeleteUserHistory int int
  | DeleteEvent
  | Respond string int string nat
  | LogError

record admin_rights =
  ban_users :: bool

record channel =
  ch_id :: int
  creator :: bool
  rights :: "admin_rights option"

record user =
  bot :: bool

subsection \<open>kriminalamt (plugins/autobahn/automatic/kriminalamt.py)\<close>

text \<open>
  The join event with what the handler reads: the chat, the joining user (\<open>get_user\<close> may
  give \<open>None\<close>), the chat's configuration document, the answer of \<open>GetParticipantRequest\<close>
  after the wait, and the number of messages of the user in the chat.
\<close>

datatype participant_result = IsParticipant | UserNotParticipantError

record join_event =
  user_joined :: bool
  joined_user_id :: int
  join_chat :: channel
  join_user :: "user option"
  join_doc :: chat_doc
  participant :: participant_result
  messages_total :: int

text \<open>
  Lines 38 to 46: the delay is 1 unless the tag is an integer, or a string that passes
  \<open>isdigit\<close>, which is then read by \<open>int\<close> and may raise. The value \<open>Present\<close> of a bare
  switch is taken to be neither, so it leaves the delay at 1.
\<close>

definition delay_of :: "tag_value option \<Rightarrow> py_error + int" where
  "delay_of kriminalamt_tag =
     (case kriminalamt_tag of
        Some (Number n) \<Rightarrow> Inr n
      | Some (Text s) \<Rightarrow> if isdigit s then int_of_isdigit s else Inr 1
      | _ \<Rightarrow> Inr 1)"

definition kriminalamt_reason :: "int \<Rightarrow> int \<Rightarrow> string" where
  "kriminalamt_reason cid delay = ''Kriminalamt #'' @ str_int cid @ '' No. '' @ str_int delay"

definition kriminalamt :: "join_event \<Rightarrow> unit outcome \<times> action list" where
  "kriminalamt e =
     (let chat = join_chat e;
          kriminalamt_tag = tags_get (join_doc e) ''kriminalamt'' None;
          bancmd = tags_get (join_doc e) ''gbancmd'' (Some (Text ''manual''))
      in if \<not> user_joined e then (Returned (), [])
         else if \<not> truthy kriminalamt_tag then (Returned (), [])
         else (case join_user e of
                 None \<Rightarrow> (Raised AttributeError, [])
               | Some u \<Rightarrow>
                  if bot u then (Returned (), [])
                  else
                   (case delay_of kriminalamt_tag of
                      Inl err \<Rightarrow> (Raised err, [])
                    | Inr delay \<Rightarrow>
                       (case participant e of
                          IsParticipant \<Rightarrow> (Returned (), [Sleep delay])
                        | UserNotParticipantError \<Rightarrow>
                           (let rsn = kriminalamt_reason (ch_id chat) delay;
                                userid = joined_user_id e
                            in (Returned (),
                                [Sleep delay, Gban userid rsn] @
                                (if creator chat \<or> rights chat \<noteq> None
                                 then (if bancmd = Some (Text ''manual'') then [Ban (ch_id chat) userid]
                                       else (case bancmd of
                                               Some cmd \<Rightarrow> [Reply cmd userid rsn, SleepQuarter]
                                             | None \<Rightarrow> []))
                                      @ (if messages_total e \<le> 5
                                         then [DeleteUserHistory (ch_id chat) userid]
                                         else [DeleteEvent])
                                 else [])))))))"

text \<open>
  Modelled from the spec: \<open>Client.gban\<close> (\<open>utils/client.py\<close> is not under \<open>src/\<close>).
  Sections 3 and 4.6: a global ban is recorded in a BanRecord identified by the user's
  id, created once per user; the first ban wins and a further ban of the same user
  creates and updates nothing.
\<close>

definition gban :: "banlist \<Rightarrow> int \<Rightarrow> string \<Rightarrow> banlist" where
  "gban bl uid rsn =
     (case bl (str_int uid) of
        None \<Rightarrow> bl(str_int uid \<mapsto> \<lparr>ban_key = str_int uid, ban_id = uid, reason = rsn\<rparr>)
      | Some doc \<Rightarrow> bl)"

fun record_gbans :: "action list \<Rightarrow> banlist \<Rightarrow> banlist" where
  "record_gbans [] bl = bl"
| "record_gbans (Gban uid rsn # acts) bl = record_gbans acts (gban bl uid rsn)"
| "record_gbans (a # acts) bl = record_gbans acts bl"

fun gbans :: "action list \<Rightarrow> (int \<times> string) list" where
  "gbans [] = []"
| "gbans (Gban uid rsn # acts) = (uid, rsn) # gbans acts"
| "gbans (a # acts) = gbans acts"

subsection \<open>grenzschutz (plugins/autobahn/automatic/grenzschutz.py)\<close>

text \<open>
  The handler is registered for chat actions and for new messages. \<open>client.get_entity\<close>
  returns the user or raises \<open>ValueError\<close>; \<open>client.ban\<close> succeeds or raises
  \<open>UserIdInvalidError\<close>. The ban list is queried by the key \<open>str(uid)\<close>.
\<close>

datatype message_action =
    MessageActionChatJoinedByLink | MessageActionChatAddUser | OtherMessageAction

record chat_action =
  user_left :: bool
  user_kicked :: bool
  action_message :: "message_action option"
  user_id :: "int option"

datatype event = ChatAction chat_action | NewMessage "int option"

datatype entity_lookup = UserEntity string | EntityValueError

datatype ban_result = BanOk | UserIdInvalidError

record guard_event =
  is_private :: bool
  event :: event
  guard_chat :: channel
  guard_doc :: chat_doc
  entity :: entity_lookup
  guard_banlist :: banlist
  admins :: "int list"
  ban_outcome :: ban_result

definition acting_user :: "event \<Rightarrow> int option" where
  "acting_user ev = (case ev of ChatAction a \<Rightarrow> user_id a | NewMessage from_id \<Rightarrow> from_id)"

definition grenzschutz :: "guard_event \<Rightarrow> unit outcome \<times> action list" where
  "grenzschutz e =
     (if is_private e then (Returned (), [])
      else if (case event e of ChatAction a \<Rightarrow> user_left a \<or> user_kicked a | NewMessage m \<Rightarrow> False)
      then (Returned (), [])
      else if (case event e of
                 ChatAction a \<Rightarrow>
                   (case action_message a of
                      None \<Rightarrow> True
                    | Some act \<Rightarrow> act \<noteq> MessageActionChatJoinedByLink \<and> act \<noteq> MessageActionChatAddUser)
               | NewMessage m \<Rightarrow> False)
      then (Returned (), [])
      else
       (let chat = guard_chat e
        in if \<not> creator chat \<and> rights chat = None then (Returned (), [])
           else if (case rights chat of Some r \<Rightarrow> \<not> ban_users r | None \<Rightarrow> False)
           then (Returned (), [])
           else
            (let polizei_tag = tags_get (guard_doc e) ''polizei'' None;
                 grenzschutz_tag = tags_get (guard_doc e) ''grenzschutz'' None;
                 silent = (grenzschutz_tag = Some (Text ''silent''))
             in if grenzschutz_tag = Some (Text ''exclude'') \<or> polizei_tag = Some (Text ''exclude'')
                then (Returned (), [])
                else
                 (case acting_user (event e) of
                    None \<Rightarrow> (Returned (), [])
                  | Some uid \<Rightarrow>
                     (let (usr, logged) =
                            (case entity e of
                               UserEntity first_name \<Rightarrow> (Some first_name, [])
                             | EntityValueError \<Rightarrow> (None, [LogError]))
                      in case guard_banlist e (str_int uid) of
                           None \<Rightarrow> (Returned (), logged)
                         | Some doc \<Rightarrow>
                            (let ban_reason = reason doc
                             in if uid \<notin> set (admins e) then
                                  (case ban_outcome e of
                                     UserIdInvalidError \<Rightarrow> (Returned (), logged @ [LogError])
                                   | BanOk \<Rightarrow>
                                      if \<not> silent then
                                        (case usr of
                                           None \<Rightarrow>
                                             (Raised UnboundLocalError,
                                              logged @ [Ban (ch_id chat) uid, DeleteEvent])
                                         | Some first_name \<Rightarrow>
                                             (Returned (),
                                              logged @ [Ban (ch_id chat) uid, DeleteEvent,
                                                        Respond first_name uid ban_reason 120]))
                                      else (Returned (), logged @ [Ban (ch_id chat) uid, DeleteEvent]))
                                else (Returned (), logged)))))))"

section \<open>Concrete inputs\<close>

text \<open>
  A database whose message-text blacklist already holds \<open>spam\<close> under key 1 and whose
  other collections are empty; an empty database; a platform that resolves nothing.
\<close>

definition empty_collection :: collection where
  "empty_collection = \<lparr>docs = [], last_key = 0\<rparr>"

definition empty_db :: arango_db where
  "empty_db = \<lparr>db_chats = Map.empty, blacklists = (\<lambda>c. empty_collection),
     db_banlist = Map.empty\<rparr>"

definition spam_db :: arango_db where
  "spam_db = put_collection empty_db AutobahnStringBlacklist
     \<lparr>docs = [\<lparr>doc_key = 1, doc_string = PStr ''spam''\<rparr>], last_key = 1\<rparr>"

definition offline :: platform where
  "offline = \<lparr>resolve_invite_link = (\<lambda>s. None), get_entity = (\<lambda>s. GetEntityError),
     resolve_url = (\<lambda>s. s), TELEGRAM_DOMAINS = [], is_reply = False,
     reply_file = None, reply_photo = None\<rparr>"

text \<open>
  A group the bot created, with no tags set, and a ban list that holds user 777.
\<close>

definition own_group :: channel where
  "own_group = \<lparr>ch_id = 1234, creator = True, rights = None\<rparr>"

definition plain_doc :: chat_doc where
  "plain_doc = \<lparr>c_key = ''-1001234'', c_id = - 1001234, tags = [], named_tags = Map.empty\<rparr>"

definition one_ban :: banlist where
  "one_ban = [''777'' \<mapsto> \<lparr>ban_key = ''777'', ban_id = 777, reason = ''spam[0x1]''\<rparr>]"

text \<open>
  A message in that group by the banned user 777, who is no admin there, at a moment
  when \<open>get_entity\<close> cannot resolve the user.
\<close>

definition unresolved_sender :: guard_event where
  "unresolved_sender = \<lparr>is_private = False, event = NewMessage (Some 777),
     guard_chat = own_group, guard_doc = plain_doc, entity = EntityValueError,
     guard_banlist = one_ban, admins = [1], ban_outcome = BanOk\<rparr>"

text \<open>The same message when the user resolves, under the first name \<open>Eve\<close>.\<close>

definition banned_sender :: guard_event where
  "banned_sender = unresolved_sender\<lparr>entity := UserEntity ''Eve''\<rparr>"


text \<open>
  A join in a chat whose \<open>kriminalamt\<close> tag is 1 second, by an account that has left
  again when the membership is queried: once by a person, once by a bot.
\<close>

definition timed_doc :: chat_doc where
  "timed_doc = plain_doc\<lparr>named_tags := [''kriminalamt'' \<mapsto> Number 1]\<rparr>"

definition hit_and_run :: join_event where
  "hit_and_run = \<lparr>user_joined = True, joined_user_id = 555, join_chat = own_group,
     join_user = Some \<lparr>bot = False\<rparr>, join_doc = timed_doc,
     participant = UserNotParticipantError, messages_total = 0\<rparr>"

definition bot_hit_and_run :: join_event where
  "bot_hit_and_run = hit_and_run\<lparr>join_user := Some \<lparr>bot = True\<rparr>\<rparr>"

text \<open>The same join in a chat whose tag is set to 0.\<close>

definition zero_hit_and_run :: join_event where
  "zero_hit_and_run =
     hit_and_run\<lparr>join_doc := plain_doc\<lparr>named_tags := [''kriminalamt'' \<mapsto> Number 0]\<rparr>\<rparr>"

section \<open>Properties of the blacklist store\<close>

lemma str_int_777: "str_int 777 = ''777''"
  by (simp add: str_int_def str_nat.simps digit_char_def)

lemma str_int_555: "str_int 555 = ''555''"
  by (simp add: str_int_def str_nat.simps digit_char_def)

lemma str_int_1234: "str_int 1234 = ''1234''"
  by (simp add: str_int_def str_nat.simps digit_char_def)

lemma str_int_1: "str_int 1 = ''1''"
  by (simp add: str_int_def str_nat.simps digit_char_def)

lemma str_int_chat: "str_int (- 1001234) = ''-1001234''"
  by (simp add: str_int_def str_nat.simps digit_char_def)

lemma add_loop_unmapped:
  "add_loop p hex None items st = (None, st)"
  by (induction items) (auto split: option.splits)

lemma add_loop_unknown:
  "add_loop p None collection items st = (None, st)"
  by (induction items) auto

lemma del_loop_unknown:
  "AUTOBAHN_TYPES t = None \<Longrightarrow> del_loop p t items db removed = (db, removed)"
  by (induction items) auto

text \<open>
  C1: every one of the eight type codes is mapped to the collection of that code, and
  an \<open>add\<close> with the filename type stores the value in the filename blacklist. The code
  does this for seven codes only: \<open>ab_collection_map\<close> has no entry for \<open>0x2\<close>, although
  \<open>AUTOBAHN_TYPES\<close> names it and the class \<open>AutobahnFilenameBlacklist\<close> carries it, so
  an \<open>add\<close> of a filename skips the item without a word and stores nothing.
\<close>

theorem filename_code_unmapped:
  "AUTOBAHN_TYPES ''filename'' = Some (hex_type AutobahnFilenameBlacklist)
   \<and> ab_collection_map (hex_type AutobahnFilenameBlacklist) = None
   \<and> add p db [''filename'', v] = (Returned [Blank, Blank, Blank, Blank], db)
   \<and> ab_collection_map (hex_type AutobahnBioBlacklist) = Some AutobahnBioBlacklist
   \<and> ab_collection_map (hex_type AutobahnStringBlacklist) = Some AutobahnStringBlacklist
   \<and> ab_collection_map (hex_type AutobahnChannelBlacklist) = Some AutobahnChannelBlacklist
   \<and> ab_collection_map (hex_type AutobahnDomainBlacklist) = Some AutobahnDomainBlacklist
   \<and> ab_collection_map (hex_type AutobahnFileBlacklist) = Some AutobahnFileBlacklist
   \<and> ab_collection_map (hex_type AutobahnMHashBlacklist) = Some AutobahnMHashBlacklist
   \<and> ab_collection_map (hex_type AutobahnTLDBlacklist) = Some AutobahnTLDBlacklist"
  by (simp add: AUTOBAHN_TYPES_def ab_collection_map_def add_def add_loop_unmapped render_def)

subsection \<open>Adding a value twice\<close>

lemma fetch_after_add_item:
  "fetchByExample (snd (add_item coll v)) v \<noteq> []"
  by (simp add: fetchByExample_def add_item_def Let_def)

lemma blacklists_put_same:
  "blacklists (put_collection db c coll) c = coll"
  by (simp add: put_collection_def)

lemma store_item_fresh:
  "fetchByExample (blacklists (st_db st) c) v = [] \<Longrightarrow>
   store_item c v shown st =
     st\<lparr>st_db := put_collection (st_db st) c (snd (add_item (blacklists (st_db st) c) v)),
        added_items := added_items st @ [shown]\<rparr>"
  by (simp add: store_item_def Let_def)

lemma store_item_present:
  "fetchByExample (blacklists (st_db st) c) v \<noteq> [] \<Longrightarrow>
   store_item c v shown st = st\<lparr>existing_items := existing_items st @ [shown]\<rparr>"
  by (simp add: store_item_def Let_def)

lemma store_item_then_present:
  "fetchByExample (blacklists (st_db (store_item c v shown st)) c) v \<noteq> []"
proof (cases "fetchByExample (blacklists (st_db st) c) v = []")
  case True
  then show ?thesis
    by (simp add: store_item_fresh blacklists_put_same fetch_after_add_item)
next
  case False
  then show ?thesis by (simp add: store_item_present)
qed

lemma fetch_empty_iff:
  "fetchByExample coll v = [] \<longleftrightarrow> v \<notin> doc_string ` set (docs coll)"
  by (auto simp: fetchByExample_def filter_empty_conv)

lemma store_item_count:
  "length (docs (blacklists (st_db (store_item c v shown st)) c)) =
   length (docs (blacklists (st_db st) c))
     + (if fetchByExample (blacklists (st_db st) c) v = [] then 1 else 0)"
  by (simp add: store_item_def Let_def blacklists_put_same add_item_def)

lemma store_item_distinct:
  assumes "distinct (map doc_string (docs (blacklists (st_db st) c)))"
  shows "distinct (map doc_string (docs (blacklists (st_db (store_item c v shown st)) c)))"
proof (cases "fetchByExample (blacklists (st_db st) c) v = []")
  case True
  then have "v \<notin> doc_string ` set (docs (blacklists (st_db st) c))"
    by (simp add: fetch_empty_iff)
  with assms True show ?thesis
    by (simp add: store_item_fresh blacklists_put_same add_item_def Let_def)
next
  case False
  with assms show ?thesis by (simp add: store_item_present)
qed

lemma add_string_once:
  "add p db [''string'', v] =
     (Returned (render ''string''
        (store_item AutobahnStringBlacklist (PStr v) (PStr v)
           \<lparr>st_db = db, added_items = [], existing_items = [], skipped_items = []\<rparr>) []),
      st_db (store_item AutobahnStringBlacklist (PStr v) (PStr v)
           \<lparr>st_db = db, added_items = [], existing_items = [], skipped_items = []\<rparr>))"
  by (simp add: add_def AUTOBAHN_TYPES_def ab_collection_map_def normalise_item_def Let_def)

lemma add_string_again:
  "add p (snd (add p db [''string'', v])) [''string'', v] =
     (Returned [Blank, ItemSection ''Existing Items:'' ''string'' [PStr v], Blank, Blank],
      snd (add p db [''string'', v]))"
proof -
  let ?st0 = "\<lparr>st_db = db, added_items = [], existing_items = [], skipped_items = []\<rparr>"
  let ?db1 = "st_db (store_item AutobahnStringBlacklist (PStr v) (PStr v) ?st0)"
  have db1: "snd (add p db [''string'', v]) = ?db1"
    by (simp add: add_string_once)
  have "fetchByExample (blacklists ?db1 AutobahnStringBlacklist) (PStr v) \<noteq> []"
    by (rule store_item_then_present)
  then have "store_item AutobahnStringBlacklist (PStr v) (PStr v)
        \<lparr>st_db = ?db1, added_items = [], existing_items = [], skipped_items = []\<rparr>
      = \<lparr>st_db = ?db1, added_items = [], existing_items = [PStr v], skipped_items = []\<rparr>"
    by (simp add: store_item_present)
  then show ?thesis
    unfolding db1 by (simp add: add_string_once [of p ?db1 v] render_def)
qed

text \<open>
  C3 (as stated, refuted): adding a value twice does not raise the entry count by
  exactly one for every value and collection. When the value is already stored, as
  \<open>spam\<close> is in the message-text blacklist of \<open>spam_db\<close>, the command reports it as
  existing and leaves the database as it was, so after two adds the count is still
  what it was before the first.
\<close>

theorem add_twice_present_counterexample:
  "add offline spam_db [''string'', ''spam'']
     = (Returned [Blank, ItemSection ''Existing Items:'' ''string'' [PStr ''spam''], Blank, Blank],
        spam_db)
   \<and> length (docs (blacklists (st_db
      (store_item AutobahnStringBlacklist (PStr ''spam'') (PStr ''spam'')
        (store_item AutobahnStringBlacklist (PStr ''spam'') (PStr ''spam'')
           \<lparr>st_db = spam_db, added_items = [], existing_items = [], skipped_items = []\<rparr>)))
      AutobahnStringBlacklist))
   = length (docs (blacklists spam_db AutobahnStringBlacklist))"
  by (simp add: add_def AUTOBAHN_TYPES_def ab_collection_map_def normalise_item_def render_def
      store_item_def spam_db_def empty_db_def put_collection_def fetchByExample_def Let_def)

text \<open>
  C3 (amended): for every value and every collection of the store, the second of two
  successive adds reports the value as existing, adds nothing to the added items and
  leaves the database as the first add left it; over the two calls the entry count
  grows by exactly one when the value was not stored before and by nothing when it
  was; and values that were pairwise different in the collection stay so. For the
  command itself, on the message-text blacklist: whatever the first \<open>add\<close> of a string
  did, the second reports the string under the existing items and returns the database
  of the first.
\<close>

theorem add_twice:
  "existing_items (store_item c v v (store_item c v v st))
     = existing_items (store_item c v v st) @ [v]
   \<and> added_items (store_item c v v (store_item c v v st)) = added_items (store_item c v v st)
   \<and> st_db (store_item c v v (store_item c v v st)) = st_db (store_item c v v st)
   \<and> length (docs (blacklists (st_db (store_item c v v (store_item c v v st))) c))
       = length (docs (blacklists (st_db st) c))
         + (if fetchByExample (blacklists (st_db st) c) v = [] then 1 else 0)
   \<and> (distinct (map doc_string (docs (blacklists (st_db st) c))) \<longrightarrow>
        distinct (map doc_string
          (docs (blacklists (st_db (store_item c v v (store_item c v v st))) c))))
   \<and> add p (snd (add p db [''string'', s])) [''string'', s] =
       (Returned [Blank, ItemSection ''Existing Items:'' ''string'' [PStr s], Blank, Blank],
        snd (add p db [''string'', s]))"
proof -
  let ?st1 = "store_item c v v st"
  have present: "fetchByExample (blacklists (st_db ?st1) c) v \<noteq> []"
    by (rule store_item_then_present)
  have second: "store_item c v v ?st1 = ?st1\<lparr>existing_items := existing_items ?st1 @ [v]\<rparr>"
    using present by (rule store_item_present)
  have db2: "st_db (store_item c v v ?st1) = st_db ?st1"
    by (simp add: second)
  have core: "existing_items (store_item c v v ?st1) = existing_items ?st1 @ [v]
      \<and> added_items (store_item c v v ?st1) = added_items ?st1"
    by (simp add: second)
  show ?thesis
    using store_item_distinct [of st c v v] core add_string_again [of p db s]
    by (simp add: db2 store_item_count)
qed

text \<open>
  Witness for C3: \<open>eggs\<close> is new to the message-text blacklist of \<open>spam_db\<close>, whose one
  value is trivially unique; after two adds the collection holds two different values.
\<close>

theorem add_twice_witness:
  "distinct (map doc_string (docs (blacklists spam_db AutobahnStringBlacklist)))
   \<and> length (docs (blacklists (st_db
      (store_item AutobahnStringBlacklist (PStr ''eggs'') (PStr ''eggs'')
        (store_item AutobahnStringBlacklist (PStr ''eggs'') (PStr ''eggs'')
           \<lparr>st_db = spam_db, added_items = [], existing_items = [], skipped_items = []\<rparr>)))
      AutobahnStringBlacklist)) = 2
   \<and> distinct (map doc_string (docs (blacklists (st_db
      (store_item AutobahnStringBlacklist (PStr ''eggs'') (PStr ''eggs'')
        (store_item AutobahnStringBlacklist (PStr ''eggs'') (PStr ''eggs'')
           \<lparr>st_db = spam_db, added_items = [], existing_items = [], skipped_items = []\<rparr>)))
      AutobahnStringBlacklist)))"
  using add_twice [of AutobahnStringBlacklist "PStr ''eggs''"
      "\<lparr>st_db = spam_db, added_items = [], existing_items = [], skipped_items = []\<rparr>"]
  by (simp add: store_item_def add_item_def spam_db_def empty_db_def empty_collection_def
      put_collection_def fetchByExample_def Let_def)

subsection \<open>Normalisation of top-level domains\<close>





subsection \<open>Unrecognised type names\<close>

text \<open>
  C8 (as stated, refuted): an unrecognised type name is not always reported back
  without an exception. \<open>query\<close> takes the collection by subscript and raises
  \<open>KeyError\<close>; \<open>add\<close> returns, but its document is empty and reports nothing.
\<close>

theorem query_unknown_type_counterexample:
  "query empty_db \<lparr>kw_type = Some ''nope'', kw_code = None\<rparr> = Raised KeyError
   \<and> add offline empty_db [''nope'', ''example.com'']
       = (Returned [Blank, Blank, Blank, Blank], empty_db)"
  by (simp add: query_def AUTOBAHN_TYPES_def add_def add_loop_unknown render_def)

text \<open>
  C8 (amended): a type name that \<open>AUTOBAHN_TYPES\<close> does not know, given to \<open>add\<close> or to
  \<open>del_\<close> with any items, never raises: every item is passed over, the database is left
  as it was, and the returned document lists nothing (for \<open>add\<close> it is empty, for \<open>del_\<close>
  it is the heading with no items). No message about the unknown name is produced.
\<close>

theorem add_unknown_type_ignored:
  "AUTOBAHN_TYPES t = None \<Longrightarrow>
   add p db (t # items) = (Returned [Blank, Blank, Blank, Blank], db)
   \<and> del_subcommand p db (t # items) = (Returned [ItemSection ''Deleted Items:'' t []], db)"
  by (simp add: add_def add_loop_unknown render_def del_subcommand_def del_loop_unknown)

text \<open>Witness for C8: the name \<open>nope\<close>, with a value that is stored and one that is not.\<close>

theorem add_unknown_type_ignored_witness:
  "AUTOBAHN_TYPES ''nope'' = None
   \<and> add offline spam_db [''nope'', ''example.com'', ''spam'']
       = (Returned [Blank, Blank, Blank, Blank], spam_db)
   \<and> del_subcommand offline spam_db [''nope'', ''example.com'', ''spam'']
       = (Returned [ItemSection ''Deleted Items:'' ''nope'' []], spam_db)"
  using add_unknown_type_ignored [of "''nope''" offline spam_db "[''example.com'', ''spam'']"]
  by (simp add: AUTOBAHN_TYPES_def)

section \<open>Properties of the ban list and of chat documents\<close>


lemma add_chat_new:
  assumes "cs (str_int cid) = None"
  shows "add_chat cs cid =
       (Some \<lparr>c_key = str_int cid, c_id = cid, tags = [], named_tags = Map.empty\<rparr>,
        cs(str_int cid \<mapsto> \<lparr>c_key = str_int cid, c_id = cid, tags = [], named_tags = Map.empty\<rparr>))"
proof -
  have "save_chat cs \<lparr>c_key = str_int cid, c_id = cid, tags = [], named_tags = Map.empty\<rparr>
      = Inr (cs(str_int cid \<mapsto> \<lparr>c_key = str_int cid, c_id = cid, tags = [], named_tags = Map.empty\<rparr>))"
    unfolding save_chat_def using assms by simp
  then show ?thesis
    unfolding add_chat_def Let_def by simp
qed

lemma get_chat_new:
  assumes "cs (str_int cid) = None"
  shows "get_chat cs cid = add_chat cs cid"
  unfolding get_chat_def using assms by simp

lemma kriminalamt_unconfigured:
  "tags (join_doc e) = [] \<Longrightarrow> named_tags (join_doc e) = Map.empty \<Longrightarrow>
   kriminalamt e = (Returned (), [])"
  by (simp add: kriminalamt_def tags_get_def Let_def)

lemma first_chat_lookup:
  "get_chat Map.empty (- 1001234) = (Some plain_doc, [''-1001234'' \<mapsto> plain_doc])"
  using get_chat_new [of Map.empty "- 1001234"] add_chat_new [of Map.empty "- 1001234"]
  by (simp add: str_int_chat plain_doc_def)

lemma grenzschutz_banned_sender:
  "grenzschutz banned_sender
     = (Returned (), [Ban 1234 777, DeleteEvent, Respond ''Eve'' 777 ''spam[0x1]'' 120])"
  by (simp add: banned_sender_def unresolved_sender_def grenzschutz_def own_group_def
      plain_doc_def one_ban_def tags_get_def acting_user_def str_int_777)

text \<open>
  C10 (as stated, refuted): a newly observed chat does not start with no automation
  enabled. The document that the first lookup of chat \<open>-1001234\<close> creates is \<open>plain_doc\<close>,
  with no tags at all; in that chat the guard automation, which a tag can only switch
  off, bans the banned user 777, deletes the message and announces the ban.
\<close>

theorem new_chat_guard_counterexample:
  "get_chat Map.empty (- 1001234) = (Some plain_doc, [''-1001234'' \<mapsto> plain_doc])
   \<and> tags plain_doc = [] \<and> named_tags plain_doc = Map.empty
   \<and> guard_doc banned_sender = plain_doc
   \<and> grenzschutz banned_sender
       = (Returned (), [Ban 1234 777, DeleteEvent, Respond ''Eve'' 777 ''spam[0x1]'' 120])"
  using first_chat_lookup grenzschutz_banned_sender
  by (simp add: banned_sender_def unresolved_sender_def plain_doc_def)

text \<open>
  C10 (amended): a chat not yet in the store is created on its first lookup, by
  \<open>get_chat\<close>, by \<open>add_chat\<close> and by the message handler \<open>add_groups\<close> alike: the new document
  has the string form of the chat id as its key, the chat id as its id, an empty \<open>tags\<close>
  list and an empty \<open>named_tags\<close> mapping, and it is stored under that key. So in a newly
  observed chat the automation that a tag switches on is off: on every event that
  reads this document the delayed-action handler returns without any effect. (The
  guard automation, which a tag switches off, is left out: it is on.)
\<close>

theorem new_chat_document:
  "cs (str_int cid) = None \<Longrightarrow>
   get_chat cs cid =
       (Some \<lparr>c_key = str_int cid, c_id = cid, tags = [], named_tags = Map.empty\<rparr>,
        cs(str_int cid \<mapsto> \<lparr>c_key = str_int cid, c_id = cid, tags = [], named_tags = Map.empty\<rparr>))
   \<and> add_chat cs cid = get_chat cs cid
   \<and> add_groups cs False cid =
        cs(str_int cid \<mapsto> \<lparr>c_key = str_int cid, c_id = cid, tags = [], named_tags = Map.empty\<rparr>)
   \<and> (join_doc e = \<lparr>c_key = str_int cid, c_id = cid, tags = [], named_tags = Map.empty\<rparr>
        \<longrightarrow> kriminalamt e = (Returned (), []))"
  using kriminalamt_unconfigured [of e]
  by (simp add: get_chat_new add_chat_new add_groups_def)

text \<open>
  Witness for C10: the chat \<open>-1001234\<close>, first seen by an empty store, and the join of
  \<open>hit_and_run\<close> read against its new document.
\<close>

theorem new_chat_document_witness:
  "(Map.empty :: chats) (str_int (- 1001234)) = None
   \<and> get_chat Map.empty (- 1001234) = (Some plain_doc, [''-1001234'' \<mapsto> plain_doc])
   \<and> tags plain_doc = [] \<and> named_tags plain_doc = Map.empty
   \<and> c_key plain_doc = str_int (- 1001234) \<and> c_id plain_doc = - 1001234
   \<and> join_doc (hit_and_run\<lparr>join_doc := plain_doc\<rparr>) = plain_doc
   \<and> kriminalamt (hit_and_run\<lparr>join_doc := plain_doc\<rparr>) = (Returned (), [])"
  using new_chat_document [of Map.empty "- 1001234" "hit_and_run\<lparr>join_doc := plain_doc\<rparr>"]
  by (simp add: str_int_chat plain_doc_def)

section \<open>Properties of the enforcement handlers\<close>

subsection \<open>kriminalamt\<close>

text \<open>
  C7: when the \<open>kriminalamt\<close> tag is absent from the chat's configuration, or the joining
  account is a bot, the handler returns at once: it waits for nothing, issues no ban and
  no deletion, and no BanRecord is created, whatever the ban list holds.
\<close>

theorem kriminalamt_disabled:
  "(named_tags (join_doc e) ''kriminalamt'' = None \<and> ''kriminalamt'' \<notin> set (tags (join_doc e)))
     \<or> (\<exists>u. join_user e = Some u \<and> bot u)
   \<Longrightarrow> kriminalamt e = (Returned (), []) \<and> record_gbans (snd (kriminalamt e)) bl = bl"
  by (auto simp: kriminalamt_def tags_get_def Let_def)

text \<open>
  Witness for C7: the join of \<open>hit_and_run\<close> in a chat without tags, and the join of a
  bot in the chat with the tag.
\<close>

theorem kriminalamt_disabled_witness:
  "named_tags (join_doc (hit_and_run\<lparr>join_doc := plain_doc\<rparr>)) ''kriminalamt'' = None
   \<and> ''kriminalamt'' \<notin> set (tags (join_doc (hit_and_run\<lparr>join_doc := plain_doc\<rparr>)))
   \<and> kriminalamt (hit_and_run\<lparr>join_doc := plain_doc\<rparr>) = (Returned (), [])
   \<and> join_user bot_hit_and_run = Some \<lparr>bot = True\<rparr>
   \<and> kriminalamt bot_hit_and_run = (Returned (), [])"
  using kriminalamt_disabled [of "hit_and_run\<lparr>join_doc := plain_doc\<rparr>" Map.empty]
    kriminalamt_disabled [of bot_hit_and_run Map.empty]
  by (simp add: hit_and_run_def bot_hit_and_run_def plain_doc_def)

text \<open>
  C4 (as stated, refuted): not every join with the tag set and the user gone after the
  delay leads to a ban. In \<open>bot_hit_and_run\<close> the tag is 1 second and the account has
  left, but it is a bot; in \<open>zero_hit_and_run\<close> the tag is set, to 0. In both the handler
  returns at once and issues no global ban.
\<close>

theorem kriminalamt_bot_counterexample:
  "user_joined bot_hit_and_run
   \<and> tags_get (join_doc bot_hit_and_run) ''kriminalamt'' None = Some (Number 1)
   \<and> participant bot_hit_and_run = UserNotParticipantError
   \<and> kriminalamt bot_hit_and_run = (Returned (), [])
   \<and> gbans (snd (kriminalamt bot_hit_and_run)) = []
   \<and> user_joined zero_hit_and_run
   \<and> tags_get (join_doc zero_hit_and_run) ''kriminalamt'' None = Some (Number 0)
   \<and> participant zero_hit_and_run = UserNotParticipantError
   \<and> kriminalamt zero_hit_and_run = (Returned (), [])
   \<and> gbans (snd (kriminalamt zero_hit_and_run)) = []"
  by (simp add: bot_hit_and_run_def zero_hit_and_run_def hit_and_run_def timed_doc_def
      plain_doc_def tags_get_def kriminalamt_def)

lemma gbans_append: "gbans (xs @ ys) = gbans xs @ gbans ys"
  by (induction xs rule: gbans.induct) simp_all

lemma kriminalamt_enabled:
  assumes "user_joined e" and "truthy (tags_get (join_doc e) ''kriminalamt'' None)"
    and "join_user e = Some u" and "\<not> bot u"
    and "delay_of (tags_get (join_doc e) ''kriminalamt'' None) = Inr d"
  shows "participant e = IsParticipant \<Longrightarrow> kriminalamt e = (Returned (), [Sleep d])"
    and "participant e = UserNotParticipantError \<Longrightarrow>
         fst (kriminalamt e) = Returned ()
         \<and> gbans (snd (kriminalamt e)) =
             [(joined_user_id e, kriminalamt_reason (ch_id (join_chat e)) d)]"
proof -
  show "participant e = IsParticipant \<Longrightarrow> kriminalamt e = (Returned (), [Sleep d])"
    using assms by (simp add: kriminalamt_def Let_def)
  show "participant e = UserNotParticipantError \<Longrightarrow>
         fst (kriminalamt e) = Returned ()
         \<and> gbans (snd (kriminalamt e)) =
             [(joined_user_id e, kriminalamt_reason (ch_id (join_chat e)) d)]"
    using assms by (simp add: kriminalamt_def Let_def gbans_append split: option.splits)
qed

text \<open>
  C4 (amended): for every join event whose \<open>kriminalamt\<close> tag has a true value from which
  the handler reads a delay, and whose joining account is known and no bot: if the user
  is no longer a participant after the delay, the handler returns having issued exactly
  one global ban, for that user, with the reason \<open>Kriminalamt #<chat id> No. <delay>\<close>,
  which holds the chat id and the delay; the delay is the tag's value when the tag is an
  integer. If the user is still a participant, the handler only waits and issues no
  global ban.
\<close>

theorem kriminalamt_departed_ban:
  "user_joined e \<Longrightarrow> truthy (tags_get (join_doc e) ''kriminalamt'' None) \<Longrightarrow>
   join_user e = Some u \<Longrightarrow> \<not> bot u \<Longrightarrow>
   delay_of (tags_get (join_doc e) ''kriminalamt'' None) = Inr d \<Longrightarrow>
   (participant e = UserNotParticipantError \<longrightarrow>
      fst (kriminalamt e) = Returned ()
      \<and> gbans (snd (kriminalamt e)) =
          [(joined_user_id e,
            ''Kriminalamt #'' @ str_int (ch_id (join_chat e)) @ '' No. '' @ str_int d)])
   \<and> (participant e = IsParticipant \<longrightarrow>
      kriminalamt e = (Returned (), [Sleep d])
      \<and> gbans (snd (kriminalamt e)) = [])
   \<and> delay_of (Some (Number n)) = Inr n"
  using kriminalamt_enabled [of e u d]
  by (simp add: kriminalamt_reason_def delay_of_def)

text \<open>
  Witness for C4: \<open>hit_and_run\<close>, a person who joined chat 1234 under a delay of 1 second
  and is gone: one global ban, of user 555.
\<close>

theorem kriminalamt_departed_ban_witness:
  "user_joined hit_and_run
   \<and> truthy (tags_get (join_doc hit_and_run) ''kriminalamt'' None)
   \<and> join_user hit_and_run = Some \<lparr>bot = False\<rparr>
   \<and> delay_of (tags_get (join_doc hit_and_run) ''kriminalamt'' None) = Inr 1
   \<and> participant hit_and_run = UserNotParticipantError
   \<and> fst (kriminalamt hit_and_run) = Returned ()
   \<and> gbans (snd (kriminalamt hit_and_run)) = [(555, ''Kriminalamt #1234 No. 1'')]"
  using kriminalamt_departed_ban [of hit_and_run "\<lparr>bot = False\<rparr>" 1 1]
  by (simp add: hit_and_run_def timed_doc_def plain_doc_def tags_get_def own_group_def
      delay_of_def str_int_1234 str_int_1)

subsection \<open>grenzschutz\<close>

text \<open>
  C2: when the acting user's entity cannot be resolved, the handler logs the failure and
  returns without a ban, a deletion or a notification, and no exception escapes. The
  code logs the \<open>ValueError\<close> but does not return: for \<open>unresolved_sender\<close>, a banned user
  who is no admin, it goes on to ban the user and delete the message, and then fails
  with \<open>UnboundLocalError\<close> where the notification reads the user that was never bound.
\<close>

theorem grenzschutz_unresolved_entity:
  "entity unresolved_sender = EntityValueError
   \<and> grenzschutz unresolved_sender
       = (Raised UnboundLocalError, [LogError, Ban 1234 777, DeleteEvent])"
  by (simp add: unresolved_sender_def grenzschutz_def own_group_def plain_doc_def one_ban_def
      tags_get_def acting_user_def str_int_777)







end
